theory Spec2Isabelle
  imports Main "HOL-Library.AList"
begin

section \<open>JavaScript values and objects\<close>

text \<open>
  The values a state field or a middleware option can hold. An object is an association
  list in insertion order, as \<open>Object.keys\<close> enumerates it. Numbers are the integers.
  Function values are not part of \<open>jsval\<close>; the accessor functions the library generates
  are HOL functions (below).
\<close>

datatype jsval =
    JUndefined
  | JNull
  | JBool bool
  | JNum int
  | JStr string
  | JObj "(string \<times> jsval) list"

type_synonym jsobj = "(string \<times> jsval) list"

text \<open>\<open>State\<close>: a mapping from field name to value.\<close>

type_synonym state = jsobj

datatype error =
    TypeError string
  | EngineError string
  | Unmodelled string

text \<open>JavaScript truthiness, as the \<open>if (x?.enabled)\<close> tests read it.\<close>

fun truthy :: "jsval \<Rightarrow> bool" where
  "truthy JUndefined = False"
| "truthy JNull = False"
| "truthy (JBool b) = b"
| "truthy (JNum n) = (n \<noteq> 0)"
| "truthy (JStr s) = (s \<noteq> [])"
| "truthy (JObj _) = True"

text \<open>Property read \<open>o[k]\<close>: \<open>undefined\<close> when the object has no such key.\<close>

definition getProp :: "jsobj \<Rightarrow> string \<Rightarrow> jsval" where
  "getProp obj k = (case map_of obj k of None \<Rightarrow> JUndefined | Some v \<Rightarrow> v)"

text \<open>Nullish coalescing \<open>a ?? b\<close>.\<close>

definition nullish :: "jsval \<Rightarrow> jsval \<Rightarrow> jsval" where
  "nullish a b = (if a = JUndefined \<or> a = JNull then b else a)"

text \<open>
  Object spread \<open>{...dst, ...src}\<close> and \<open>Object.assign\<close>: every property of \<open>src\<close> is
  assigned in turn; an existing key keeps its place and takes the new value, a new key is
  appended.
\<close>

definition spread :: "(string \<times> 'v) list \<Rightarrow> (string \<times> 'v) list \<Rightarrow> (string \<times> 'v) list" where
  "spread dst src = fold (\<lambda>(k, v) acc. AList.update k v acc) src dst"

text \<open>
  A record with one entry per key, in key order (the records of the generators that are
  modelled from the spec).
\<close>

definition forEach_key :: "string list \<Rightarrow> (string \<Rightarrow> 'v) \<Rightarrow> (string \<times> 'v) list" where
  "forEach_key ks f = fold (\<lambda>key acc. AList.update key (f key) acc) ks []"

definition keys :: "(string \<times> 'v) list \<Rightarrow> string list" where
  "keys obj = map fst obj"

text \<open>
  The assignment \<open>rec[key] = fn\<close> of a function to a property of a plain object, as the
  source writes it: for the key \<open>__proto__\<close> it runs the prototype setter, which makes
  \<open>fn\<close> the prototype of \<open>rec\<close> and adds no own key; any other key becomes (or stays)
  an own key holding \<open>fn\<close>.
\<close>

definition assignFunction :: "string \<Rightarrow> 'v \<Rightarrow> (string \<times> 'v) list \<Rightarrow> (string \<times> 'v) list" where
  "assignFunction key fn rec = (if key = ''__proto__'' then rec else AList.update key fn rec)"

text \<open>
  The loop \<open>Object.keys(s).forEach((key) => { selectors[key] = f(key) })\<close> over
  \<open>selectors = {}\<close>, by such assignments.
\<close>

definition forEach_assign :: "string list \<Rightarrow> (string \<Rightarrow> 'v) \<Rightarrow> (string \<times> 'v) list" where
  "forEach_assign ks f = fold (\<lambda>key acc. assignFunction key (f key) acc) ks []"

section \<open>Middleware composition in \<open>createStore\<close>\<close>

text \<open>
  A state creator is either the caller's initializer or a middleware call around a state
  creator. The middleware functions \<open>devtools\<close> and \<open>persist\<close> belong to the underlying
  store library; a call is recorded with the creator and the configuration object it
  received.
\<close>

datatype creator =
    Initializer state
  | DevToolsMiddleware creator jsobj
  | PersistMiddleware creator jsobj

text \<open>
  \<open>TCreateStoreOptions\<close>: both entries are optional objects. The tests
  \<open>if (devtools?.enabled)\<close> and \<open>if (persist?.enabled)\<close> fail when the entry is absent.
  An enabled middleware is pushed as a function of the state creator it will wrap:
  devtools with \<open>{ ...devtools, name }\<close>, persist with
  \<open>{ ...persist, name: persist.name ?? name }\<close>; \<open>stateMutators\<close> is the \<open>reduce\<close> of the
  pushed functions over \<open>createState\<close>.
\<close>

record options =
  devtools :: "jsobj option"
  persist :: "jsobj option"

definition no_options :: options where
  "no_options = \<lparr>devtools = None, persist = None\<rparr>"

definition middlewares :: "string \<Rightarrow> options \<Rightarrow> (creator \<Rightarrow> creator) list" where
  "middlewares name opts =
     (case devtools opts of
        None \<Rightarrow> []
      | Some d \<Rightarrow>
          if truthy (getProp d ''enabled'')
          then [\<lambda>config. DevToolsMiddleware config (AList.update ''name'' (JStr name) d)]
          else [])
     @
     (case persist opts of
        None \<Rightarrow> []
      | Some p \<Rightarrow>
          if truthy (getProp p ''enabled'')
          then [\<lambda>config. PersistMiddleware config
                  (AList.update ''name'' (nullish (getProp p ''name'') (JStr name)) p)]
          else [])"

definition stateMutators :: "string \<Rightarrow> creator \<Rightarrow> options \<Rightarrow> creator" where
  "stateMutators name createState opts =
     fold (\<lambda>fn y. fn y) (middlewares name opts) createState"

text \<open>
  The middleware layers of a state creator, outermost first, each with the \<open>name\<close> label
  of the configuration object it received.
\<close>

datatype middleware = Devtools | Persist

fun appliedLayers :: "creator \<Rightarrow> (middleware \<times> jsval) list" where
  "appliedLayers (Initializer s) = []"
| "appliedLayers (DevToolsMiddleware c cfg) = (Devtools, getProp cfg ''name'') # appliedLayers c"
| "appliedLayers (PersistMiddleware c cfg) = (Persist, getProp cfg ''name'') # appliedLayers c"

text \<open>
  The \<open>enabled\<close> entry of an optional configuration object, and the values its type
  \<open>enabled?: boolean\<close> admits.
\<close>

definition enabledFlag :: "jsobj option \<Rightarrow> jsval" where
  "enabledFlag cfg = (case cfg of None \<Rightarrow> JUndefined | Some d \<Rightarrow> getProp d ''enabled'')"

definition isFlag :: "jsval \<Rightarrow> bool" where
  "isFlag v = (v = JUndefined \<or> v = JBool True \<or> v = JBool False)"

section \<open>The store engine\<close>

text \<open>
  The underlying store is an object on the heap holding the current state. Accessor
  closures keep a reference to it (an address) and read the heap when they are called.
  \<open>labels\<close> records the diagnostic tag of each labelled update.
\<close>

type_synonym addr = nat

record cell =
  current :: state
  initial :: state
  labels :: "(string \<times> string) list"

record heap =
  cells :: "addr \<Rightarrow> cell"
  fresh :: addr

definition getState :: "addr \<Rightarrow> heap \<Rightarrow> state" where
  "getState a h = current (cells h a)"

definition getInitialState :: "addr \<Rightarrow> heap \<Rightarrow> state" where
  "getInitialState a h = initial (cells h a)"

text \<open>
  \<open>setState(partial)\<close> of the engine with an object partial: the new state is
  \<open>Object.assign({}, state, partial)\<close>.
\<close>

definition setState :: "state \<Rightarrow> addr \<Rightarrow> heap \<Rightarrow> heap" where
  "setState partial a h =
     h\<lparr>cells := (cells h)(a := (cells h a)\<lparr>current := spread (current (cells h a)) partial\<rparr>)\<rparr>"

definition addLabel :: "string \<times> string \<Rightarrow> addr \<Rightarrow> heap \<Rightarrow> heap" where
  "addLabel l a h =
     h\<lparr>cells := (cells h)(a := (cells h a)\<lparr>labels := labels (cells h a) @ [l]\<rparr>)\<rparr>"

text \<open>
  The engine's constructor (\<open>createStore\<close> of the store library) is a parameter of the
  model: given the composed state creator it either raises or allocates a store.
\<close>

type_synonym engine = "creator \<Rightarrow> heap \<Rightarrow> error + (addr \<times> heap)"

text \<open>
  The two run-time values \<open>createStore\<close> hands to the tracked-hook generator: the store
  object the engine returned (a plain object with \<open>getState\<close>, \<open>setState\<close>,
  \<open>getInitialState\<close>, \<open>subscribe\<close>; not a function) and the function that
  \<open>createTrackedSelector\<close> returned (callable; it has no \<open>getState\<close> property).
\<close>

datatype handle = StoreApi addr | TrackedSelector addr

text \<open>The method call \<open>x.getState()\<close> on such a value.\<close>

fun call_getState :: "handle \<Rightarrow> heap \<Rightarrow> error + state" where
  "call_getState (StoreApi a) h = Inr (getState a h)"
| "call_getState (TrackedSelector a) h = Inl (TypeError ''store.getState is not a function'')"

text \<open>
  The call \<open>x()\<close>. The tracked selector returns the state behind a read-tracking proxy;
  reading a field through the proxy yields the field's value.
\<close>

fun call_function :: "handle \<Rightarrow> heap \<Rightarrow> error + state" where
  "call_function (TrackedSelector a) h = Inr (getState a h)"
| "call_function (StoreApi a) h = Inl (TypeError ''trackedStore is not a function'')"

section \<open>Accessor generators\<close>

text \<open>
  Generated accessors are closures over the store; the model passes them the heap they
  read or update. A hook returns the value it selects during a render in which the heap
  is the given one (subscription and re-rendering belong to the rendering framework).
\<close>

type_synonym getter = "heap \<Rightarrow> jsval list \<Rightarrow> error + jsval"
type_synonym setter = "jsval list \<Rightarrow> heap \<Rightarrow> error + heap"
type_synonym hook = "heap \<Rightarrow> error + jsval"

text \<open>The first argument of a call, \<open>undefined\<close> when none was passed.\<close>

fun arg0 :: "jsval list \<Rightarrow> jsval" where
  "arg0 [] = JUndefined"
| "arg0 (v # _) = v"

text \<open>
  \<open>generateStateTrackedHooksSelectors(store, trackedStore)\<close>: the keys come from
  \<open>(store as any).getState()\<close>; the selector of a key is \<open>() => trackedStore()[key]\<close>.
\<close>

definition generateStateTrackedHooksSelectors ::
    "handle \<Rightarrow> handle \<Rightarrow> heap \<Rightarrow> error + (string \<times> hook) list" where
  "generateStateTrackedHooksSelectors store trackedStore h =
     (case call_getState store h of
        Inl e \<Rightarrow> Inl e
      | Inr s \<Rightarrow>
          Inr (forEach_assign (keys s)
                 (\<lambda>key. \<lambda>h'. case call_function trackedStore h' of
                                 Inl e \<Rightarrow> Inl e
                               | Inr t \<Rightarrow> Inr (getProp t key))))"

text \<open>
  Modelled from the spec: \<open>generateStateGetSelectors\<close> (\<open>utils/generateStateGetSelectors\<close>
  is not among the sources). For each key of the state snapshot, a zero-argument function
  returning the current value of that key by reading the full state and projecting the
  field.
\<close>

definition generateStateGetSelectors :: "addr \<Rightarrow> heap \<Rightarrow> (string \<times> getter) list" where
  "generateStateGetSelectors store h =
     forEach_key (keys (getState store h))
       (\<lambda>key. \<lambda>h' args. Inr (getProp (getState store h') key))"

text \<open>
  Modelled from the spec: \<open>generateStateActions\<close> (\<open>utils/generateStateActions\<close> is not
  among the sources). For each key, a one-argument function that issues a state update,
  the full state being re-derived from a shallow merge of the previous state and
  \<open>{ key: newValue }\<close>, and tags the update with the key name (here together with the
  store name the generator was given).
\<close>

definition generateStateActions :: "addr \<Rightarrow> string \<Rightarrow> heap \<Rightarrow> (string \<times> setter) list" where
  "generateStateActions store storeName h =
     forEach_key (keys (getState store h))
       (\<lambda>key. \<lambda>args h'.
          Inr (addLabel (storeName, key) store (setState [(key, arg0 args)] store h')))"

text \<open>
  Modelled from the spec: \<open>generateStateHookSelectors\<close> (\<open>utils/generateStateHookSelectors\<close>
  is not among the sources). For each key, a function that subscribes to just that field
  through the store hook; \<open>useStore\<close> is the store the hook is bound to.
\<close>

definition generateStateHookSelectors :: "addr \<Rightarrow> addr \<Rightarrow> heap \<Rightarrow> (string \<times> hook) list" where
  "generateStateHookSelectors useStore store h =
     forEach_key (keys (getState store h))
       (\<lambda>key. \<lambda>h'. Inr (getProp (getState useStore h') key))"

section \<open>The composite API\<close>

text \<open>
  \<open>TStateApi\<close>. The methods \<open>extendSelectors\<close> and \<open>extendActions\<close> that
  \<open>storeFactory\<close> installs are the functions \<open>method_extendSelectors\<close> and
  \<open>method_extendActions\<close> below.
\<close>

record api =
  api_getInitialState :: "heap \<Rightarrow> state"
  api_get :: "(string \<times> getter) list"
  api_name :: string
  api_set :: "(string \<times> setter) list"
  api_store :: addr
  api_useStore :: "(state \<Rightarrow> jsval) \<Rightarrow> heap \<Rightarrow> jsval"
  api_use :: "(string \<times> hook) list"
  api_useTracked :: "(string \<times> hook) list"
  api_useTrackedStore :: handle

text \<open>
  \<open>store.getState\<close> and \<open>store.setState\<close> as entries of the accessor records. A partial
  that is not an object (an updater function, or a primitive that would replace the
  state) is outside the value model; such a call is reported as \<open>Unmodelled\<close>.
\<close>

definition store_getState :: "addr \<Rightarrow> getter" where
  "store_getState store = (\<lambda>h args. Inr (JObj (getState store h)))"

definition store_setState :: "addr \<Rightarrow> setter" where
  "store_setState store =
     (\<lambda>args h. case arg0 args of
                  JObj partial \<Rightarrow> Inr (setState partial store h)
                | _ \<Rightarrow> Inl (Unmodelled ''setState: the partial is not an object''))"

text \<open>\<open>useStore(selector)\<close>: the selected slice of the current state.\<close>

definition useStore :: "addr \<Rightarrow> (state \<Rightarrow> jsval) \<Rightarrow> heap \<Rightarrow> jsval" where
  "useStore store selector h = selector (getState store h)"

text \<open>The object literal \<open>apiInternal\<close> of \<open>createStore\<close>.\<close>

definition apiInternal ::
    "string \<Rightarrow> addr \<Rightarrow> (string \<times> getter) list \<Rightarrow> (string \<times> setter) list \<Rightarrow>
     (string \<times> hook) list \<Rightarrow> (string \<times> hook) list \<Rightarrow> handle \<Rightarrow> api" where
  "apiInternal name store getterSelectors stateActions hookSelectors trackedHooksSelectors
       useTrackedStore =
     \<lparr>api_getInitialState = getInitialState store,
      api_get = spread [(''state'', store_getState store)] getterSelectors,
      api_name = name,
      api_set = spread [(''state'', store_setState store)] stateActions,
      api_store = store,
      api_useStore = useStore store,
      api_use = hookSelectors,
      api_useTracked = trackedHooksSelectors,
      api_useTrackedStore = useTrackedStore\<rparr>"

text \<open>
  A composite API object is a reference: the address its object literal was allocated at,
  and its (immutable) contents.
\<close>

type_synonym api_ref = "addr \<times> api"

text \<open>\<open>storeFactory(api)\<close>: a new object literal spreading \<open>api\<close>.\<close>

definition storeFactory :: "api \<Rightarrow> heap \<Rightarrow> api_ref \<times> heap" where
  "storeFactory a h = ((fresh h, a), h\<lparr>fresh := Suc (fresh h)\<rparr>)"

type_synonym selector_builder =
  "state \<Rightarrow> (string \<times> getter) list \<Rightarrow> api \<Rightarrow> (string \<times> getter) list"

type_synonym action_builder =
  "(string \<times> setter) list \<Rightarrow> (string \<times> getter) list \<Rightarrow> api \<Rightarrow> (string \<times> setter) list"

text \<open>The call of a builder by the extension helpers, with the arguments they pass.\<close>

definition selectorAdditions :: "selector_builder \<Rightarrow> api \<Rightarrow> heap \<Rightarrow> (string \<times> getter) list" where
  "selectorAdditions builder a h = builder (getState (api_store a) h) (api_get a) a"

definition actionAdditions :: "action_builder \<Rightarrow> api \<Rightarrow> (string \<times> setter) list" where
  "actionAdditions builder a = builder (api_set a) (api_get a) a"

text \<open>
  Modelled from the spec: the helper \<open>extendSelectors(builder, api)\<close> of \<open>utils\<close> (not
  among the sources). The builder receives the state, the current getters and the full
  API and returns a mapping of new named functions, which is merged into the getter
  sub-record; new keys override same-named existing keys.
\<close>

definition extendSelectors :: "selector_builder \<Rightarrow> api \<Rightarrow> heap \<Rightarrow> api" where
  "extendSelectors builder a h =
     a\<lparr>api_get := spread (api_get a) (selectorAdditions builder a h)\<rparr>"

text \<open>
  Modelled from the spec: the helper \<open>extendActions(builder, api)\<close> of \<open>utils\<close> (not
  among the sources). The builder receives the current setters, the current getters and
  the full API (the argument order of the README's examples); its mapping is merged into
  the setter sub-record, new keys overriding same-named existing keys.
\<close>

definition extendActions :: "action_builder \<Rightarrow> api \<Rightarrow> api" where
  "extendActions builder a =
     a\<lparr>api_set := spread (api_set a) (actionAdditions builder a)\<rparr>"

text \<open>The two methods of the object \<open>storeFactory\<close> returns.\<close>

definition method_extendSelectors :: "selector_builder \<Rightarrow> api_ref \<Rightarrow> heap \<Rightarrow> api_ref \<times> heap" where
  "method_extendSelectors builder r h = storeFactory (extendSelectors builder (snd r) h) h"

definition method_extendActions :: "action_builder \<Rightarrow> api_ref \<Rightarrow> heap \<Rightarrow> api_ref \<times> heap" where
  "method_extendActions builder r h = storeFactory (extendActions builder (snd r)) h"




text \<open>
  The calls \<open>rec[n](...args)\<close> on an accessor record: a \<open>TypeError\<close> when the record has no
  such entry.
\<close>

definition callGetter ::
    "(string \<times> getter) list \<Rightarrow> string \<Rightarrow> heap \<Rightarrow> jsval list \<Rightarrow> error + jsval" where
  "callGetter rec n h args =
     (case map_of rec n of
        None \<Rightarrow> Inl (TypeError ''not a function'')
      | Some f \<Rightarrow> f h args)"

definition callSetter ::
    "(string \<times> setter) list \<Rightarrow> string \<Rightarrow> jsval list \<Rightarrow> heap \<Rightarrow> error + heap" where
  "callSetter rec n args h =
     (case map_of rec n of
        None \<Rightarrow> Inl (TypeError ''not a function'')
      | Some f \<Rightarrow> f args h)"

section \<open>\<open>createStore\<close>\<close>

text \<open>
  \<open>createStore(name)(createState, options)\<close>. There is no \<open>try\<close> in the function: the
  first step that raises ends it. The call of the tracked-hook generator passes
  \<open>useTrackedStore\<close> first and \<open>store\<close> second, as the source does.
\<close>

definition createStore ::
    "engine \<Rightarrow> string \<Rightarrow> creator \<Rightarrow> options \<Rightarrow> heap \<Rightarrow> error + (api_ref \<times> heap)" where
  "createStore createStoreZustand name createState opts h =
     (case createStoreZustand (stateMutators name createState opts) h of
        Inl e \<Rightarrow> Inl e
      | Inr (store, h1) \<Rightarrow>
          (let getterSelectors = generateStateGetSelectors store h1;
               stateActions = generateStateActions store name h1;
               hookSelectors = generateStateHookSelectors store store h1;
               useTrackedStore = TrackedSelector store
           in (case generateStateTrackedHooksSelectors useTrackedStore (StoreApi store) h1 of
                 Inl e \<Rightarrow> Inl e
               | Inr trackedHooksSelectors \<Rightarrow>
                   Inr (storeFactory
                          (apiInternal name store getterSelectors stateActions hookSelectors
                             trackedHooksSelectors useTrackedStore) h1))))"

text \<open>
  The composite API that the steps of \<open>createStore\<close> after the engine call assemble for
  a store, given the record the tracked-hook generator returned.
\<close>

definition assembled :: "string \<Rightarrow> addr \<Rightarrow> heap \<Rightarrow> (string \<times> hook) list \<Rightarrow> api" where
  "assembled name store h trackedHooksSelectors =
     apiInternal name store (generateStateGetSelectors store h)
       (generateStateActions store name h) (generateStateHookSelectors store store h)
       trackedHooksSelectors (TrackedSelector store)"

text \<open>
  The program \<open>const s = createStore(name)(createState, options); s.set[f](v);
  return s.get[f]()\<close>.
\<close>

definition createStore_set_get ::
    "engine \<Rightarrow> string \<Rightarrow> creator \<Rightarrow> options \<Rightarrow> string \<Rightarrow> jsval \<Rightarrow> heap \<Rightarrow> error + jsval" where
  "createStore_set_get createStoreZustand name createState opts f v h =
     (case createStore createStoreZustand name createState opts h of
        Inl e \<Rightarrow> Inl e
      | Inr (r, h1) \<Rightarrow>
          (case callSetter (api_set (snd r)) f [v] h1 of
             Inl e \<Rightarrow> Inl e
           | Inr h2 \<Rightarrow> callGetter (api_get (snd r)) f h2 []))"

section \<open>A reference engine and sample stores\<close>

text \<open>
  A store engine that accepts every state creator: it allocates a store holding the
  initializer's state. Middleware layers leave the initial state as it is.
\<close>

fun initialState :: "creator \<Rightarrow> state" where
  "initialState (Initializer s) = s"
| "initialState (DevToolsMiddleware c _) = initialState c"
| "initialState (PersistMiddleware c _) = initialState c"

definition newCell :: "state \<Rightarrow> cell" where
  "newCell s = \<lparr>current = s, initial = s, labels = []\<rparr>"

definition plainEngine :: engine where
  "plainEngine c h =
     Inr (fresh h, h\<lparr>cells := (cells h)(fresh h := newCell (initialState c)),
                      fresh := Suc (fresh h)\<rparr>)"

text \<open>An engine whose validation rejects every state creator with the given error.\<close>

definition rejectingEngine :: "error \<Rightarrow> engine" where
  "rejectingEngine e c h = Inl e"

definition emptyHeap :: heap where
  "emptyHeap = \<lparr>cells = (\<lambda>_. newCell []), fresh = 0\<rparr>"

text \<open>The state \<open>{ name: 'x', stars: 0 }\<close> and a heap holding a store with it at address 0.\<close>

definition repoState :: state where
  "repoState = [(''name'', JStr ''x''), (''stars'', JNum 0)]"

definition repoHeap :: heap where
  "repoHeap = \<lparr>cells = (\<lambda>_. newCell [])(0 := newCell repoState), fresh = 1\<rparr>"

text \<open>
  The composite API assembled for that store (with an empty tracked-hook record), and
  the API object \<open>storeFactory\<close> makes of it.
\<close>

definition repoApi :: api where
  "repoApi = assembled ''repo'' 0 repoHeap []"

definition repoStore :: "api_ref \<times> heap" where
  "repoStore = storeFactory repoApi repoHeap"

text \<open>Sample configurations.\<close>

definition bothOptions :: options where
  "bothOptions = \<lparr>devtools = Some [(''enabled'', JBool True)],
                  persist = Some [(''enabled'', JBool True)]\<rparr>"

definition customPersist :: options where
  "customPersist = \<lparr>devtools = None,
                    persist = Some [(''enabled'', JBool True), (''name'', JStr ''custom'')]\<rparr>"

text \<open>
  Sample builders: a selector that returns a constant, the selector
  \<open>n: () => get[src]() * 2\<close>, and the action \<open>n: () => set[field](v)\<close>.
\<close>

definition constantSelector :: "string \<Rightarrow> jsval \<Rightarrow> selector_builder" where
  "constantSelector n v = (\<lambda>state get a. [(n, \<lambda>h args. Inr v)])"

definition timesTwo :: "string \<Rightarrow> string \<Rightarrow> selector_builder" where
  "timesTwo n src =
     (\<lambda>state get a.
        [(n, \<lambda>h args. case map_of get src of
                          None \<Rightarrow> Inl (TypeError ''not a function'')
                        | Some f \<Rightarrow>
                            (case f h [] of
                               Inl e \<Rightarrow> Inl e
                             | Inr (JNum x) \<Rightarrow> Inr (JNum (x * 2))
                             | Inr _ \<Rightarrow> Inl (Unmodelled ''product of a non-number'')))])"

definition constantAction :: "string \<Rightarrow> string \<Rightarrow> jsval \<Rightarrow> action_builder" where
  "constantAction n field v =
     (\<lambda>set get a.
        [(n, \<lambda>args h. case map_of set field of
                         None \<Rightarrow> Inl (TypeError ''not a function'')
                       | Some s \<Rightarrow> s [v] h)])"

text \<open>Sample chains of extensions of the sample store.\<close>

definition once :: "api_ref \<times> heap" where
  "once = method_extendSelectors (constantSelector ''doubled'' (JNum 1))
            (fst repoStore) (snd repoStore)"

definition twice :: "api_ref \<times> heap" where
  "twice = method_extendSelectors (constantSelector ''doubled'' (JNum 2)) (fst once) (snd once)"

definition withDoubled :: "api_ref \<times> heap" where
  "withDoubled = method_extendSelectors (timesTwo ''doubled'' ''stars'')
                   (fst repoStore) (snd repoStore)"

definition withQuadrupled :: "api_ref \<times> heap" where
  "withQuadrupled = method_extendSelectors (timesTwo ''quadrupled'' ''doubled'')
                      (fst withDoubled) (snd withDoubled)"

definition withReset :: "api_ref \<times> heap" where
  "withReset = method_extendActions (constantAction ''reset'' ''stars'' (JNum 0))
                 (fst repoStore) (snd repoStore)"



definition withReset2 :: "api_ref \<times> heap" where
  "withReset2 = method_extendActions (constantAction ''reset'' ''name'' (JStr []))
                  (fst withReset) (snd withReset)"

section \<open>Object spread and generated records\<close>

lemma fold_update_dom:
  "fst ` set (fold (\<lambda>(k, v) acc. AList.update k v acc) src dst) = fst ` set dst \<union> fst ` set src"
proof (induction src arbitrary: dst)
  case Nil
  show ?case by simp
next
  case (Cons x xs)
  obtain a b where x: "x = (a, b)" by (cases x)
  show ?case by (simp add: Cons.IH x AList.dom_update Un_ac)
qed

lemma keys_spread: "set (keys (spread dst src)) = set (keys dst) \<union> set (keys src)"
  by (simp add: keys_def spread_def fold_update_dom)

lemma map_of_fold_update:
  "map_of (fold (\<lambda>(k, v) acc. AList.update k v acc) src dst) k =
     (case map_of (rev src) k of Some v \<Rightarrow> Some v | None \<Rightarrow> map_of dst k)"
proof (induction src arbitrary: dst)
  case Nil
  show ?case by simp
next
  case (Cons x xs)
  obtain a b where x: "x = (a, b)" by (cases x)
  show ?case
    by (simp add: Cons.IH x AList.update_conv' map_add_def split: option.splits)
qed

lemma map_of_spread:
  "map_of (spread dst src) k =
     (case map_of (rev src) k of Some v \<Rightarrow> Some v | None \<Rightarrow> map_of dst k)"
  by (simp add: spread_def map_of_fold_update)

lemma map_of_rev_distinct: "distinct (map fst xs) \<Longrightarrow> map_of (rev xs) = map_of xs"
  by (metis distinct_rev map_of_inject_set rev_map set_rev)


lemma map_of_spread_in:
  "distinct (keys src) \<Longrightarrow> (k, v) \<in> set src \<Longrightarrow> map_of (spread dst src) k = Some v"
  by (simp add: map_of_spread keys_def map_of_rev_distinct)

lemma spread_single: "spread s [(k, v)] = AList.update k v s"
  by (simp add: spread_def)

lemma map_of_spread_single:
  "map_of (spread dst [(n, v)]) k = (if k = n then Some v else map_of dst k)"
  by (simp add: spread_def AList.update_conv')

lemma fold_forEach_dom:
  "fst ` set (fold (\<lambda>key acc. AList.update key (f key) acc) ks acc) = fst ` set acc \<union> set ks"
  by (induction ks arbitrary: acc) (auto simp: AList.dom_update)

lemma keys_forEach_key: "set (keys (forEach_key ks f)) = set ks"
  by (simp add: keys_def forEach_key_def fold_forEach_dom)

lemma map_of_fold_forEach:
  "map_of (fold (\<lambda>key acc. AList.update key (f key) acc) ks acc) k =
     (if k \<in> set ks then Some (f k) else map_of acc k)"
  by (induction ks arbitrary: acc) (auto simp: AList.update_conv')

lemma map_of_forEach_key:
  "map_of (forEach_key ks f) k = (if k \<in> set ks then Some (f k) else None)"
  by (simp add: forEach_key_def map_of_fold_forEach)

lemma distinct_forEach_key: "distinct (keys (forEach_key ks f))"
proof -
  have "distinct (map fst acc) \<Longrightarrow>
        distinct (map fst (fold (\<lambda>key acc. AList.update key (f key) acc) ks acc))" for acc
    by (induction ks arbitrary: acc) (simp_all add: AList.distinct_update)
  then show ?thesis by (simp add: keys_def forEach_key_def)
qed

lemma map_of_rev_forEach_key: "map_of (rev (forEach_key ks f)) = map_of (forEach_key ks f)"
  using distinct_forEach_key [of ks f] by (simp add: keys_def map_of_rev_distinct)

lemma getProp_update_same: "getProp (AList.update k v obj) k = v"
  by (simp add: getProp_def AList.update_conv')

section \<open>The store\<close>

lemma getState_setState_same: "getState a (setState p a h) = spread (getState a h) p"
  by (simp add: getState_def setState_def)

lemma getState_addLabel: "getState b (addLabel l a h) = getState b h"
  by (simp add: getState_def addLabel_def)

lemma repo_getState: "getState 0 repoHeap = [(''name'', JStr ''x''), (''stars'', JNum 0)]"
  by (simp add: getState_def repoHeap_def newCell_def repoState_def)

lemma repo_keys: "keys (getState 0 repoHeap) = [''name'', ''stars'']"
  by (simp add: keys_def repo_getState)

lemma repoStore_simps:
  "fst (fst repoStore) = 1" "snd (fst repoStore) = repoApi" "fresh (snd repoStore) = 2"
  "cells (snd repoStore) = cells repoHeap"
  by (simp_all add: repoStore_def storeFactory_def repoHeap_def)

section \<open>Middleware composition\<close>

text \<open>
  C3: when both the devtools and the persist middleware are enabled, \<open>createStore\<close>
  composes them in a fixed order before it constructs the backing store: the devtools
  middleware wraps the state initializer innermost, the persist middleware wraps the
  devtools-wrapped initializer outermost, and the engine is called on that composition.
\<close>

theorem middleware_order:
  assumes "devtools opts = Some d" and "truthy (getProp d ''enabled'')"
    and "persist opts = Some p" and "truthy (getProp p ''enabled'')"
  shows "stateMutators name createState opts =
           PersistMiddleware
             (DevToolsMiddleware createState (AList.update ''name'' (JStr name) d))
             (AList.update ''name'' (nullish (getProp p ''name'') (JStr name)) p)
         \<and> createStore eng name createState opts h =
           createStore
             (\<lambda>c. eng (PersistMiddleware
                        (DevToolsMiddleware createState (AList.update ''name'' (JStr name) d))
                        (AList.update ''name'' (nullish (getProp p ''name'') (JStr name)) p)))
             name createState opts h"
  using assms by (simp add: stateMutators_def middlewares_def createStore_def)

theorem middleware_order_witness:
  "devtools bothOptions = Some [(''enabled'', JBool True)]
   \<and> truthy (getProp [(''enabled'', JBool True)] ''enabled'')
   \<and> persist bothOptions = Some [(''enabled'', JBool True)]
   \<and> stateMutators ''repo'' (Initializer repoState) bothOptions =
       PersistMiddleware
         (DevToolsMiddleware (Initializer repoState)
            [(''enabled'', JBool True), (''name'', JStr ''repo'')])
         [(''enabled'', JBool True), (''name'', JStr ''repo'')]"
  using middleware_order [of bothOptions "[(''enabled'', JBool True)]"
      "[(''enabled'', JBool True)]" "''repo''" "Initializer repoState"]
  by (simp add: bothOptions_def getProp_def nullish_def)

text \<open>
  A persist configuration that carries its own \<open>name\<close> keeps it: the label the persist
  middleware receives is \<open>'custom'\<close> whatever the store name is.
\<close>

theorem persist_label_not_from_store_name:
  "appliedLayers (stateMutators ''repo'' (Initializer repoState) customPersist)
     = [(Persist, JStr ''custom'')]
   \<and> appliedLayers (stateMutators ''other'' (Initializer repoState) customPersist)
     = [(Persist, JStr ''custom'')]"
  by (simp add: stateMutators_def middlewares_def customPersist_def getProp_def nullish_def)

text \<open>
  C10 (amended): for every configuration whose \<open>enabled\<close> flags are booleans or absent,
  the devtools middleware is applied exactly when \<open>options.devtools.enabled\<close> is true and
  the persist middleware exactly when \<open>options.persist.enabled\<close> is true, persist around
  devtools around the given state creator. The devtools middleware receives the store
  name as its \<open>name\<close> label; the persist middleware receives \<open>options.persist.name\<close> when
  that is neither \<open>undefined\<close> nor \<open>null\<close>, and the store name otherwise.
\<close>

theorem middleware_layers:
  assumes "isFlag (enabledFlag (devtools opts))" and "isFlag (enabledFlag (persist opts))"
  shows "appliedLayers (stateMutators name createState opts) =
           (if enabledFlag (persist opts) = JBool True
            then [(Persist, case persist opts of
                              Some p \<Rightarrow> nullish (getProp p ''name'') (JStr name)
                            | None \<Rightarrow> JStr name)]
            else [])
           @ (if enabledFlag (devtools opts) = JBool True then [(Devtools, JStr name)] else [])
           @ appliedLayers createState"
  using assms
  by (auto simp: stateMutators_def middlewares_def enabledFlag_def isFlag_def
      getProp_update_same split: option.splits)

theorem middleware_layers_witness:
  "isFlag (enabledFlag (devtools bothOptions)) \<and> isFlag (enabledFlag (persist bothOptions))
   \<and> appliedLayers (stateMutators ''repo'' (Initializer repoState) bothOptions)
       = [(Persist, JStr ''repo''), (Devtools, JStr ''repo'')]
   \<and> isFlag (enabledFlag (devtools no_options)) \<and> isFlag (enabledFlag (persist no_options))
   \<and> appliedLayers (stateMutators ''repo'' (Initializer repoState) no_options) = []"
  using middleware_layers [of bothOptions "''repo''" "Initializer repoState"]
    middleware_layers [of no_options "''repo''" "Initializer repoState"]
  by (simp add: bothOptions_def no_options_def enabledFlag_def isFlag_def getProp_def
      nullish_def)

section \<open>The outcome of \<open>createStore\<close>\<close>

lemma createStore_assembled:
  "createStore eng name createState opts h =
     (case eng (stateMutators name createState opts) h of
        Inl e \<Rightarrow> Inl e
      | Inr (store, h1) \<Rightarrow>
          (case generateStateTrackedHooksSelectors (TrackedSelector store) (StoreApi store) h1 of
             Inl e \<Rightarrow> Inl e
           | Inr t \<Rightarrow> Inr (storeFactory (assembled name store h1 t) h1)))"
  by (simp add: createStore_def assembled_def split: sum.splits)

lemma engine_failure_propagates:
  "eng (stateMutators name createState opts) h = Inl e \<Longrightarrow>
     createStore eng name createState opts h = Inl e"
  by (simp add: createStore_def)

lemma rejected_creator_propagates:
  "createStore (rejectingEngine (EngineError ''invalid configuration'')) ''repo''
     (Initializer repoState) no_options emptyHeap = Inl (EngineError ''invalid configuration'')"
  by (rule engine_failure_propagates) (simp add: rejectingEngine_def)

text \<open>
  C2: the accessor-generation phase of \<open>createStore\<close> completes without raising. The code
  does not do this: whenever the engine returns a store, the tracked-hook generator is
  called with the tracked selector as its first argument, which has no \<open>getState\<close>
  method, and with the store object as its second argument, which is not callable; the
  call raises a \<open>TypeError\<close> and \<open>createStore\<close> ends with it.
\<close>

theorem createStore_tracked_generator_raises:
  assumes "eng (stateMutators name createState opts) h = Inr (store, h1)"
  shows "createStore eng name createState opts h
           = Inl (TypeError ''store.getState is not a function'')
         \<and> generateStateTrackedHooksSelectors (TrackedSelector store) (StoreApi store) h1
           = Inl (TypeError ''store.getState is not a function'')
         \<and> call_function (StoreApi store) h1 = Inl (TypeError ''trackedStore is not a function'')"
  using assms by (simp add: createStore_def generateStateTrackedHooksSelectors_def)

theorem createStore_tracked_generator_raises_witness:
  "plainEngine (stateMutators ''repo'' (Initializer repoState) no_options) emptyHeap
      = Inr (0, repoHeap)
   \<and> createStore plainEngine ''repo'' (Initializer repoState) no_options emptyHeap
      = Inl (TypeError ''store.getState is not a function'')"
  using createStore_tracked_generator_raises
    [of plainEngine "''repo''" "Initializer repoState" no_options emptyHeap 0 repoHeap]
  by (simp add: plainEngine_def stateMutators_def middlewares_def no_options_def emptyHeap_def
      repoHeap_def)

text \<open>
  C9: construction either succeeds or fails exactly as the underlying store and
  middleware decide, every failure reaching the caller unchanged. On the code, a failure
  of the engine does reach the caller unchanged, but when the engine succeeds
  \<open>createStore\<close> still ends with a \<open>TypeError\<close> of its own making.
\<close>

theorem createStore_outcome:
  "createStore eng name createState opts h =
     (case eng (stateMutators name createState opts) h of
        Inl e \<Rightarrow> Inl e
      | Inr r \<Rightarrow> Inl (TypeError ''store.getState is not a function''))"
  by (simp add: createStore_def generateStateTrackedHooksSelectors_def split: sum.splits)

lemma fold_assign_dom:
  "fst ` set (fold (\<lambda>key acc. assignFunction key (f key) acc) ks acc)
     = fst ` set acc \<union> (set ks - {''__proto__''})"
  by (induction ks arbitrary: acc) (auto simp: assignFunction_def AList.dom_update)

lemma keys_forEach_assign: "set (keys (forEach_assign ks f)) = set ks - {''__proto__''}"
  by (simp add: keys_def forEach_assign_def fold_assign_dom)

lemma tracked_generator_keys:
  "\<exists>r. generateStateTrackedHooksSelectors (StoreApi store) t h = Inr r
       \<and> set (keys r) = set (keys (getState store h)) - {''__proto__''}"
  by (simp add: generateStateTrackedHooksSelectors_def keys_forEach_assign)

text \<open>
  C1: the composite API that \<open>createStore\<close> returns has getter, setter, hook and
  tracked-hook sub-records keyed by the keys of the initial state. The code returns no
  such API: for every engine, store name, state creator and options, \<open>createStore\<close> ends
  with an error and no accessor record reaches the caller.
\<close>

theorem createStore_returns_no_api:
  "isl (createStore eng name createState opts h)"
  by (simp add: createStore_def generateStateTrackedHooksSelectors_def split: sum.splits)

text \<open>
  C4: \<open>set.f(v)\<close> followed by \<open>get.f()\<close> returns \<open>v\<close>; for the initial state
  \<open>{ name: 'x', stars: 0 }\<close>, \<open>get.stars()\<close> after \<open>set.stars(5)\<close> is 5. On the code the
  program of this example, run on an engine that accepts the initializer, ends with the
  \<open>TypeError\<close> of \<open>createStore\<close> before any setter exists.
\<close>

theorem example_set_then_get_raises:
  "createStore_set_get plainEngine ''repo'' (Initializer repoState) no_options
     ''stars'' (JNum 5) emptyHeap
   = Inl (TypeError ''store.getState is not a function'')"
  by (simp add: createStore_set_get_def createStore_def plainEngine_def
      generateStateTrackedHooksSelectors_def)

lemma keys_single [simp]: "keys [(k, v)] = [k]"
  by (simp add: keys_def)

section \<open>Field setters and getters\<close>

text \<open>
  C5: for every store, every field name \<open>f\<close> in the initial key set, every other field
  name \<open>g\<close> and every value \<open>v\<close>, \<open>set.f(v)\<close> leaves the value of \<open>g\<close> unchanged: the new
  state is the shallow merge of the previous state with \<open>{ f: v }\<close>, and no other store is
  touched.
\<close>

theorem set_leaves_other_fields:
  assumes "f \<in> set (keys (getState store h0))"
    and "a = assembled name store h0 tracked"
  shows "\<exists>s. map_of (api_set a) f = Some s
           \<and> (\<forall>h v. \<exists>h'. s [v] h = Inr h'
                 \<and> getState store h' = AList.update f v (getState store h)
                 \<and> (\<forall>g. g \<noteq> f \<longrightarrow>
                        getProp (getState store h') g = getProp (getState store h) g
                      \<and> map_of (getState store h') g = map_of (getState store h) g)
                 \<and> (\<forall>g gt. g \<noteq> f \<and> g \<in> set (keys (getState store h0))
                        \<and> map_of (api_get a) g = Some gt \<longrightarrow> gt h' [] = gt h [])
                 \<and> (\<forall>b. b \<noteq> store \<longrightarrow> cells h' b = cells h b))"
  using assms
  by (simp add: assembled_def apiInternal_def generateStateGetSelectors_def
      generateStateActions_def map_of_spread map_of_rev_forEach_key map_of_forEach_key
      getState_addLabel getState_setState_same spread_single getProp_def AList.update_conv')
     (simp add: addLabel_def setState_def)

theorem set_leaves_other_fields_witness:
  "''stars'' \<in> set (keys (getState 0 repoHeap))
   \<and> (\<exists>s h'. map_of (api_set repoApi) ''stars'' = Some s
         \<and> s [JNum 5] repoHeap = Inr h'
         \<and> getState 0 h' = [(''name'', JStr ''x''), (''stars'', JNum 5)]
         \<and> getProp (getState 0 h') ''name'' = JStr ''x'')"
proof -
  have k: "''stars'' \<in> set (keys (getState 0 repoHeap))"
    by (simp add: repo_keys)
  from set_leaves_other_fields [OF k repoApi_def]
  obtain s where s: "map_of (api_set repoApi) ''stars'' = Some s"
    and step: "\<forall>h v. \<exists>h'. s [v] h = Inr h'
                 \<and> getState 0 h' = AList.update ''stars'' v (getState 0 h)
                 \<and> (\<forall>g. g \<noteq> ''stars'' \<longrightarrow>
                        getProp (getState 0 h') g = getProp (getState 0 h) g
                      \<and> map_of (getState 0 h') g = map_of (getState 0 h) g)
                 \<and> (\<forall>g gt. g \<noteq> ''stars'' \<and> g \<in> set (keys (getState 0 repoHeap))
                        \<and> map_of (api_get repoApi) g = Some gt \<longrightarrow> gt h' [] = gt h [])
                 \<and> (\<forall>b. b \<noteq> 0 \<longrightarrow> cells h' b = cells h b)"
    by (elim exE conjE)
  from step have "\<exists>h'. s [JNum 5] repoHeap = Inr h'
      \<and> getState 0 h' = AList.update ''stars'' (JNum 5) (getState 0 repoHeap)"
    by (elim allE [of _ repoHeap] allE [of _ "JNum 5"] exE conjE) (rule exI, erule conjI)
  then obtain h' where "s [JNum 5] repoHeap = Inr h'"
    and "getState 0 h' = AList.update ''stars'' (JNum 5) (getState 0 repoHeap)"
    by (elim exE conjE)
  with k s show ?thesis
    by (simp add: repo_getState getProp_def)
qed

section \<open>Extension of the composite API\<close>

lemma selectors_get:
  "api_get (snd (fst (method_extendSelectors b r h)))
     = spread (api_get (snd r)) (selectorAdditions b (snd r) h)"
  by (simp add: method_extendSelectors_def storeFactory_def extendSelectors_def)

lemma actions_set:
  "api_set (snd (fst (method_extendActions b r h)))
     = spread (api_set (snd r)) (actionAdditions b (snd r))"
  by (simp add: method_extendActions_def storeFactory_def extendActions_def)

lemma selectors_proj:
  "fst (fst (method_extendSelectors b r h)) = fresh h"
  "fresh (snd (method_extendSelectors b r h)) = Suc (fresh h)"
  "cells (snd (method_extendSelectors b r h)) = cells h"
  "api_store (snd (fst (method_extendSelectors b r h))) = api_store (snd r)"
  "api_name (snd (fst (method_extendSelectors b r h))) = api_name (snd r)"
  "api_set (snd (fst (method_extendSelectors b r h))) = api_set (snd r)"
  "api_use (snd (fst (method_extendSelectors b r h))) = api_use (snd r)"
  "api_useTracked (snd (fst (method_extendSelectors b r h))) = api_useTracked (snd r)"
  by (simp_all add: method_extendSelectors_def storeFactory_def extendSelectors_def)







lemma keys_constantSelector: "keys (selectorAdditions (constantSelector n v) a h) = [n]"
  by (simp add: selectorAdditions_def constantSelector_def keys_def)

lemma keys_constantAction: "keys (actionAdditions (constantAction n fld v) a) = [n]"
  by (simp add: actionAdditions_def constantAction_def keys_def)

text \<open>
  C8: for every composite API and every name already present in the getter
  (respectively setter) sub-record, registering that name again through
  \<open>extendSelectors\<close> (\<open>extendActions\<close>) replaces the old accessor with the newly registered
  one. The extension methods have no failing branch: they return the new API.
\<close>

theorem later_registration_wins:
  assumes "method_extendSelectors B r h = (r', h')"
    and "(n, f) \<in> set (selectorAdditions B (snd r) h)"
    and "distinct (keys (selectorAdditions B (snd r) h))"
    and "n \<in> set (keys (api_get (snd r)))"
    and "method_extendActions A q k = (q', k')"
    and "(m, s) \<in> set (actionAdditions A (snd q))"
    and "distinct (keys (actionAdditions A (snd q)))"
    and "m \<in> set (keys (api_set (snd q)))"
  shows "map_of (api_get (snd r')) n = Some f
       \<and> set (keys (api_get (snd r')))
           = set (keys (api_get (snd r))) \<union> set (keys (selectorAdditions B (snd r) h))
       \<and> map_of (api_set (snd q')) m = Some s
       \<and> set (keys (api_set (snd q')))
           = set (keys (api_set (snd q))) \<union> set (keys (actionAdditions A (snd q)))"
proof -
  have g: "api_get (snd r') = spread (api_get (snd r)) (selectorAdditions B (snd r) h)"
    using selectors_get [of B r h] assms(1) by simp
  have a: "api_set (snd q') = spread (api_set (snd q)) (actionAdditions A (snd q))"
    using actions_set [of A q k] assms(5) by simp
  from assms(2,3,6,7) show ?thesis
    by (simp add: g a keys_spread map_of_spread_in)
qed

lemma keys_api_set_withReset:
  "set (keys (api_set (snd (fst withReset)))) = {''state'', ''name'', ''stars'', ''reset''}"
  by (simp add: withReset_def actions_set keys_spread keys_constantAction repoStore_simps)
     (auto simp: repoApi_def assembled_def apiInternal_def keys_spread keys_forEach_key
       generateStateActions_def repo_keys)

lemma keys_api_get_once:
  "set (keys (api_get (snd (fst once)))) = {''state'', ''name'', ''stars'', ''doubled''}"
  by (simp add: once_def selectors_get keys_spread keys_constantSelector repoStore_simps)
     (auto simp: repoApi_def assembled_def apiInternal_def keys_spread keys_forEach_key
       generateStateGetSelectors_def repo_keys)

theorem later_registration_wins_witness:
  "''doubled'' \<in> set (keys (api_get (snd (fst once))))
   \<and> map_of (api_get (snd (fst twice))) ''doubled'' = Some (\<lambda>h args. Inr (JNum 2))
   \<and> set (keys (api_get (snd (fst twice)))) = set (keys (api_get (snd (fst once))))
   \<and> ''reset'' \<in> set (keys (api_set (snd (fst withReset))))
   \<and> map_of (api_set (snd (fst withReset2))) ''reset''
        = Some (snd (hd (actionAdditions (constantAction ''reset'' ''name'' (JStr []))
                           (snd (fst withReset)))))
   \<and> set (keys (api_set (snd (fst withReset2)))) = set (keys (api_set (snd (fst withReset))))"
proof -
  have s: "method_extendSelectors (constantSelector ''doubled'' (JNum 2)) (fst once) (snd once)
             = (fst twice, snd twice)"
    by (simp add: twice_def)
  have a: "method_extendActions (constantAction ''reset'' ''name'' (JStr [])) (fst withReset)
             (snd withReset) = (fst withReset2, snd withReset2)"
    by (simp add: withReset2_def)
  have sm: "(''doubled'', \<lambda>h args. Inr (JNum 2))
              \<in> set (selectorAdditions (constantSelector ''doubled'' (JNum 2)) (snd (fst once))
                      (snd once))"
    by (simp add: selectorAdditions_def constantSelector_def)
  have am: "(''reset'', snd (hd (actionAdditions (constantAction ''reset'' ''name'' (JStr []))
                                   (snd (fst withReset)))))
              \<in> set (actionAdditions (constantAction ''reset'' ''name'' (JStr []))
                      (snd (fst withReset)))"
    by (simp add: actionAdditions_def constantAction_def)
  have sd: "distinct (keys (selectorAdditions (constantSelector ''doubled'' (JNum 2))
              (snd (fst once)) (snd once)))"
    by (simp add: keys_constantSelector)
  have ad: "distinct (keys (actionAdditions (constantAction ''reset'' ''name'' (JStr []))
              (snd (fst withReset))))"
    by (simp add: keys_constantAction)
  have sk: "''doubled'' \<in> set (keys (api_get (snd (fst once))))"
    by (simp add: keys_api_get_once)
  have ak: "''reset'' \<in> set (keys (api_set (snd (fst withReset))))"
    by (simp add: keys_api_set_withReset)
  from later_registration_wins [OF s sm sd sk a am ad ak] sk ak show ?thesis
    by (simp add: keys_constantSelector keys_constantAction insert_absorb)
qed

section \<open>The example of the specification\<close>

lemma api_get_repo:
  "map_of (api_get repoApi) k =
     (if k \<in> {''name'', ''stars''} then Some (\<lambda>h' args. Inr (getProp (getState 0 h') k))
      else if k = ''state'' then Some (store_getState 0) else None)"
  by (simp add: repoApi_def assembled_def apiInternal_def generateStateGetSelectors_def
      map_of_spread map_of_rev_forEach_key map_of_forEach_key repo_keys)

lemma api_set_repo:
  "map_of (api_set repoApi) k =
     (if k \<in> {''name'', ''stars''}
      then Some (\<lambda>args h'. Inr (addLabel (''repo'', k) 0 (setState [(k, arg0 args)] 0 h')))
      else if k = ''state'' then Some (store_setState 0) else None)"
  by (simp add: repoApi_def assembled_def apiInternal_def generateStateActions_def
      map_of_spread map_of_rev_forEach_key map_of_forEach_key repo_keys)

text \<open>
  On the API assembled for the sample store (\<open>repoApi\<close>, which \<open>createStore\<close> itself
  does not get to return), after \<open>set.stars(5)\<close>: \<open>get.stars()\<close> is 5,
  \<open>get.name()\<close> is still \<open>'x'\<close>, and the derived selectors \<open>doubled\<close> and \<open>quadrupled\<close>
  return 10 and 20.
\<close>

lemma repo_example:
  "\<exists>h. callSetter (api_set (snd (fst withQuadrupled))) ''stars'' [JNum 5] repoHeap = Inr h
       \<and> callGetter (api_get (snd (fst withQuadrupled))) ''stars'' h [] = Inr (JNum 5)
       \<and> callGetter (api_get (snd (fst withQuadrupled))) ''name'' h [] = Inr (JStr ''x'')
       \<and> callGetter (api_get (snd (fst withQuadrupled))) ''doubled'' h [] = Inr (JNum 10)
       \<and> callGetter (api_get (snd (fst withQuadrupled))) ''quadrupled'' h [] = Inr (JNum 20)"
  by (simp add: callGetter_def callSetter_def withQuadrupled_def withDoubled_def
      selectors_get selectors_proj selectorAdditions_def timesTwo_def map_of_spread_single
      repoStore_simps api_get_repo api_set_repo)
     (simp add: getState_addLabel getState_setState_same spread_single repo_getState
      getProp_def)

section \<open>Successive extensions\<close>




end
